theory Spec2Isabelle
  imports Main "HOL-Library.Sublist"
begin

section \<open>Python string operations used by the parser\<close>

text \<open>
  The source works on Python \<open>str\<close> values. Here a string is a \<open>char list\<close> and a
  character is a code point below 256 (the Latin-1 range); the whitespace set and the
  case mapping below are those of Python for that range.
\<close>

definition is_space :: "char \<Rightarrow> bool" where
  \<comment> \<open>\<open>str.isspace\<close> on one character: what \<open>strip\<close>, \<open>lstrip\<close> and \<open>rstrip\<close> remove.\<close>
  "is_space c = (c \<in> set [CHR 0x09, CHR 0x0A, CHR 0x0B, CHR 0x0C, CHR 0x0D,
                            CHR 0x1C, CHR 0x1D, CHR 0x1E, CHR 0x1F, CHR 0x20,
                            CHR 0x85, CHR 0xA0])"

definition lstrip :: "string \<Rightarrow> string" where
  "lstrip s = dropWhile is_space s"

definition rstrip :: "string \<Rightarrow> string" where
  "rstrip s = rev (dropWhile is_space (rev s))"

definition strip :: "string \<Rightarrow> string" where
  "strip s = lstrip (rstrip s)"

definition lower_char :: "char \<Rightarrow> char" where
  "lower_char c =
     (let n = (of_char c :: nat)
      in if (65 \<le> n \<and> n \<le> 90) \<or> (192 \<le> n \<and> n \<le> 222 \<and> n \<noteq> 215)
         then char_of (n + 32) else c)"

definition lower :: "string \<Rightarrow> string" where
  "lower s = map lower_char s"

definition startswith :: "string \<Rightarrow> string \<Rightarrow> bool" where
  \<comment> \<open>\<open>startswith s p\<close> is \<open>s.startswith(p)\<close>.\<close>
  "startswith s p = (take (length p) s = p)"

definition endswith :: "string \<Rightarrow> string \<Rightarrow> bool" where
  \<comment> \<open>\<open>endswith s p\<close> is \<open>s.endswith(p)\<close>.\<close>
  "endswith s p = (length p \<le> length s \<and> drop (length s - length p) s = p)"

fun split_on :: "char \<Rightarrow> string \<Rightarrow> string list" where
  \<comment> \<open>\<open>s.split(sep)\<close> for a one-character separator: never empty, one more element than
      there are separators.\<close>
  "split_on sep [] = [[]]"
| "split_on sep (c # cs) =
     (let r = split_on sep cs
      in if c = sep then [] # r else (c # hd r) # tl r)"

definition split_first :: "char \<Rightarrow> string \<Rightarrow> string \<times> string" where
  \<comment> \<open>\<open>s.split(sep, 1)\<close> on a string that contains \<open>sep\<close>: the text before the first
      separator and the text after it.\<close>
  "split_first sep s = (takeWhile (\<lambda>c. c \<noteq> sep) s, tl (dropWhile (\<lambda>c. c \<noteq> sep) s))"

section \<open>The ISO 8601 pattern of the Expires field\<close>

definition is_digit :: "char \<Rightarrow> bool" where
  \<comment> \<open>\<open>\d\<close> under \<open>re.ASCII\<close>.\<close>
  "is_digit c = (c \<in> set ''0123456789'')"

fun digits :: "nat \<Rightarrow> string \<Rightarrow> string option" where
  \<comment> \<open>\<open>\d{n}\<close>: consume exactly \<open>n\<close> digits, return the rest.\<close>
  "digits 0 s = Some s"
| "digits (Suc n) [] = None"
| "digits (Suc n) (c # cs) = (if is_digit c then digits n cs else None)"

definition lit :: "char list \<Rightarrow> string \<Rightarrow> string option" where
  \<comment> \<open>a character class: consume one character out of \<open>cls\<close>.\<close>
  "lit cls s = (case s of [] \<Rightarrow> None | c # cs \<Rightarrow> if c \<in> set cls then Some cs else None)"

definition fraction :: "string \<Rightarrow> string option" where
  \<comment> \<open>\<open>(\.\d+)?\<close>: what follows the group is never a digit, so the greedy match is the
      only one that can succeed.\<close>
  "fraction s =
     (case s of
        c # d # cs \<Rightarrow>
          if c = CHR ''.'' \<and> is_digit d then Some (dropWhile is_digit cs) else Some s
      | _ \<Rightarrow> Some s)"

definition zone :: "string \<Rightarrow> string option" where
  \<comment> \<open>\<open>(Z|[-+]\d{2}:\d{2})\<close> under \<open>re.IGNORECASE\<close>.\<close>
  "zone s =
     (case lit ''Zz'' s of
        Some r \<Rightarrow> Some r
      | None \<Rightarrow>
          Option.bind (lit ''-+'' s) (\<lambda>r1.
          Option.bind (digits 2 r1) (\<lambda>r2.
          Option.bind (lit '':'' r2) (\<lambda>r3.
          digits 2 r3))))"

definition at_end :: "string \<Rightarrow> bool" where
  \<comment> \<open>\<open>$\<close> without \<open>re.MULTILINE\<close>: the end of the string, or just before a line feed
      that ends it.\<close>
  "at_end s = (s = [] \<or> s = [CHR 0x0A])"

definition iso8601_re_match :: "string \<Rightarrow> bool" where
  \<comment> \<open>\<open>Parser.iso8601_re.match(value)\<close> is not \<open>None\<close>.\<close>
  "iso8601_re_match v =
     (case
        Option.bind (digits 4 v) (\<lambda>r1.
        Option.bind (lit ''-'' r1) (\<lambda>r2.
        Option.bind (digits 2 r2) (\<lambda>r3.
        Option.bind (lit ''-'' r3) (\<lambda>r4.
        Option.bind (digits 2 r4) (\<lambda>r5.
        Option.bind (lit ''Tt '' r5) (\<lambda>r6.
        Option.bind (digits 2 r6) (\<lambda>r7.
        Option.bind (lit '':'' r7) (\<lambda>r8.
        Option.bind (digits 2 r8) (\<lambda>r9.
        Option.bind (lit '':'' r9) (\<lambda>r10.
        Option.bind (digits 2 r10) (\<lambda>r11.
        Option.bind (fraction r11) zone)))))))))))
      of None \<Rightarrow> False | Some r \<Rightarrow> at_end r)"

section \<open>Dates and times\<close>

datatype exn = ValueError | TypeError | IndexError

record datetime =
  year :: nat
  month :: nat
  day :: nat
  hour :: nat
  minute :: nat
  second :: nat
  microsecond :: nat
  tzoffset :: "int option"  \<comment> \<open>\<open>utcoffset()\<close> in seconds; \<open>None\<close> for a naive value\<close>

definition is_leap :: "nat \<Rightarrow> bool" where
  "is_leap y = (y mod 4 = 0 \<and> (y mod 100 \<noteq> 0 \<or> y mod 400 = 0))"

definition days_in_month :: "nat \<Rightarrow> nat \<Rightarrow> nat" where
  "days_in_month y m =
     (if m = 2 then (if is_leap y then 29 else 28)
      else if m \<in> {4, 6, 9, 11} then 30 else 31)"

definition days_before_year :: "nat \<Rightarrow> nat" where
  "days_before_year y = (y - 1) * 365 + (y - 1) div 4 - (y - 1) div 100 + (y - 1) div 400"

definition days_before_month :: "nat \<Rightarrow> nat \<Rightarrow> nat" where
  "days_before_month y m = (\<Sum>k \<leftarrow> [1..<m]. days_in_month y k)"

definition toordinal :: "datetime \<Rightarrow> nat" where
  "toordinal d = days_before_year (year d) + days_before_month (year d) (month d) + day d"

definition utc_micros :: "datetime \<Rightarrow> int" where
  \<comment> \<open>the instant as microseconds on the UTC time line; a naive value counts as is.\<close>
  "utc_micros d =
     (((int (toordinal d) * 24 + int (hour d)) * 60 + int (minute d)) * 60
        + int (second d) - (case tzoffset d of None \<Rightarrow> 0 | Some off \<Rightarrow> off)) * 1000000
     + int (microsecond d)"

definition replace_year :: "datetime \<Rightarrow> nat \<Rightarrow> exn + datetime" where
  \<comment> \<open>\<open>d.replace(year=y)\<close>: the constructor checks the new date and raises ValueError
      when the year is out of range or the day does not exist in that year.\<close>
  "replace_year d y =
     (if 1 \<le> y \<and> y \<le> 9999 \<and> 1 \<le> month d \<and> month d \<le> 12
         \<and> 1 \<le> day d \<and> day d \<le> days_in_month y (month d)
      then Inr (d\<lparr>year := y\<rparr>) else Inl ValueError)"

definition dt_less :: "datetime \<Rightarrow> datetime \<Rightarrow> exn + bool" where
  \<comment> \<open>\<open>a < b\<close> (and \<open>b > a\<close>) on datetimes: comparing a naive with an aware value raises
      TypeError.\<close>
  "dt_less a b =
     (if (tzoffset a = None) = (tzoffset b = None)
      then Inr (utc_micros a < utc_micros b) else Inl TypeError)"

section \<open>The data model of the parser\<close>

record errordict =
  e_code :: string
  e_message :: string
  e_line :: "nat option"

record linedict =
  l_type :: string
  l_field_name :: "string option"
  l_value :: string

text \<open>
  The attributes of a \<open>Parser\<close> object. \<open>field_values\<close> is \<open>self._values\<close>, a
  \<open>defaultdict(list)\<close>: a key is present from the first time it is indexed.
\<close>

record parser =
  urls :: "string list option"
  line_info :: "linedict list"
  errors :: "errordict list"
  recommendations :: "errordict list"
  notifications :: "errordict list"
  field_values :: "string \<rightharpoonup> string list"
  langs :: "string list option"
  signed :: bool
  reading_sig :: bool
  finished_sig :: bool
  content :: string
  recommend_unknown_fields :: bool
  line_no :: "nat option"
  expires_date :: "datetime option"

text \<open>
  The collaborators the parser calls and does not implement. \<open>from_blob\<close> is
  \<open>pgpy.PGPMessage.from_blob\<close> with the two exceptions the parser handles;
  \<open>urlsplit_scheme\<close> is the scheme of \<open>urllib.parse.urlsplit\<close>, \<open>None\<close> when it raises
  ValueError (the parser does not handle it); \<open>tag_is_valid\<close> is
  \<open>langcodes.tag_is_valid\<close>; \<open>dateutil_parse\<close> is \<open>dateutil.parser.parse\<close>, \<open>None\<close>
  when it raises ParserError; \<open>utcnow n\<close> is what the clock reads while the line after
  the first \<open>n\<close> lines is parsed.
\<close>

datatype pgp_outcome = Parsed | RaisesValueError | RaisesPGPError

record caps =
  from_blob :: "string \<Rightarrow> pgp_outcome"
  urlsplit_scheme :: "string \<Rightarrow> string option"
  tag_is_valid :: "string \<Rightarrow> bool"
  dateutil_parse :: "string \<Rightarrow> datetime option"
  utcnow :: "nat \<Rightarrow> datetime"

definition PREFERRED_LANGUAGES :: string where
  "PREFERRED_LANGUAGES = ''preferred-languages''"

definition uri_fields :: "string list" where
  "uri_fields = [''acknowledgments'', ''canonical'', ''contact'', ''encryption'',
                 ''hiring'', ''policy'', ''csaf'']"

definition known_fields :: "string list" where
  "known_fields = uri_fields @ [PREFERRED_LANGUAGES, ''expires'']"

subsection \<open>The messages of the diagnostics\<close>

definition sq :: string where
  "sq = [CHR 0x27]"

definition dq :: string where
  "dq = [CHR 0x22]"

definition msg_data_after_sig :: string where
  "msg_data_after_sig = ''Signed security.txt must not contain data after the signature.''"

definition msg_signed_format_issue :: string where
  "msg_signed_format_issue =
     ''Signed security.txt must start with the header '' @ sq
     @ ''-----BEGIN PGP SIGNED MESSAGE-----'' @ sq @ ''.''"

definition msg_pgp_data_error :: string where
  "msg_pgp_data_error = ''Signed message did not contain a correct ASCII-armored PGP block.''"

definition msg_pgp_error :: string where
  "msg_pgp_error = ''Decoding or parsing of the pgp message failed.''"

definition msg_invalid_line :: string where
  "msg_invalid_line =
     ''Line must contain a field name and value, unless the line is blank or contains a comment.''"

definition msg_prec_ws :: string where
  "msg_prec_ws = ''There must be no whitespace before the field separator (colon).''"

definition msg_no_space :: string where
  "msg_no_space = ''Field separator (colon) must be followed by a space.''"

definition msg_empty_key :: string where
  "msg_empty_key = ''Field name must not be empty.''"

definition msg_empty_value :: string where
  "msg_empty_value = ''Field value must not be empty.''"

definition msg_no_uri :: "string \<Rightarrow> string" where
  "msg_no_uri key = ''Field '' @ sq @ key @ sq @ '' value must be a URI.''"

definition msg_no_https :: string where
  "msg_no_https = ''Web URI must begin with '' @ sq @ ''https://'' @ sq @ ''.''"

definition msg_invalid_lang :: string where
  "msg_invalid_lang =
     ''Value in '' @ sq @ ''Preferred-Languages'' @ sq @ '' field must match one ''
     @ ''or more language tags as defined in RFC5646, separated by commas.''"

definition msg_unknown_field :: "string \<Rightarrow> string" where
  "msg_unknown_field key =
     ''security.txt contains an unknown field. Field '' @ dq @ key @ dq
     @ '' is either a custom field which may not be widely ''
     @ ''supported, or there is a typo in a standardised field name.''"

definition msg_invalid_expiry :: string where
  "msg_invalid_expiry =
     ''Date and time in '' @ sq @ ''Expires'' @ sq
     @ '' field must be formatted according to ISO 8601.''"

definition msg_long_expiry :: string where
  "msg_long_expiry =
     ''Date and time in '' @ sq @ ''Expires'' @ sq
     @ '' field should be less than a year into the future.''"

definition msg_expired :: string where
  "msg_expired =
     ''Date and time in '' @ sq @ ''Expires'' @ sq @ '' field must not be in the past.''"

definition msg_no_expire :: string where
  "msg_no_expire = sq @ ''Expires'' @ sq @ '' field must be present.''"

definition msg_multi_expire :: string where
  "msg_multi_expire = sq @ ''Expires'' @ sq @ '' field must not appear more than once.''"

definition msg_no_canonical_match :: string where
  "msg_no_canonical_match =
     ''Web URI where security.txt is located must match with a '' @ sq @ ''Canonical'' @ sq
     @ '' field. In case of redirecting either the ''
     @ ''first or last web URI of the redirect chain must match.''"

definition msg_no_line_separators :: string where
  "msg_no_line_separators =
     ''Every line, including the last one, must end with ''
     @ ''either a carriage return and line feed characters ''
     @ ''or just a line feed character''"

definition msg_no_csaf_file :: string where
  "msg_no_csaf_file = ''All CSAF fields must point to a provider-metadata.json file.''"

definition msg_multiple_csaf_fields :: string where
  "msg_multiple_csaf_fields =
     ''It is allowed to have more than one csaf field, ''
     @ ''however this should be removed if possible.''"

definition msg_no_contact :: string where
  "msg_no_contact = sq @ ''Contact'' @ sq @ '' field must appear at least once.''"

definition msg_no_encryption :: string where
  "msg_no_encryption =
     sq @ ''Encryption'' @ sq @ '' field should be present when '' @ sq @ ''Contact'' @ sq
     @ '' field contains an email address.''"

definition msg_multi_lang :: string where
  "msg_multi_lang =
     sq @ ''Preferred-Languages'' @ sq @ '' field must not appear more than once.''"

definition msg_not_signed :: string where
  "msg_not_signed = ''security.txt should be digitally signed.''"

definition msg_no_canonical :: string where
  "msg_no_canonical = sq @ ''Canonical'' @ sq @ '' field should be present in a signed file.''"

subsection \<open>The diagnostic collector\<close>

definition add_error :: "parser \<Rightarrow> string \<Rightarrow> string \<Rightarrow> nat option \<Rightarrow> parser" where
  \<comment> \<open>\<open>if explicit_line_no:\<close> is false for \<open>None\<close> and for 0.\<close>
  "add_error st c m explicit_line_no =
     (let error_line =
            (case explicit_line_no of
               None \<Rightarrow> line_no st
             | Some n \<Rightarrow> if n \<noteq> 0 then Some n else line_no st)
      in st\<lparr>errors := errors st @ [\<lparr>e_code = c, e_message = m, e_line = error_line\<rparr>]\<rparr>)"

definition add_recommendation :: "parser \<Rightarrow> string \<Rightarrow> string \<Rightarrow> parser" where
  "add_recommendation st c m =
     st\<lparr>recommendations :=
          recommendations st @ [\<lparr>e_code = c, e_message = m, e_line = line_no st\<rparr>]\<rparr>"

definition add_notification :: "parser \<Rightarrow> string \<Rightarrow> string \<Rightarrow> parser" where
  "add_notification st c m =
     st\<lparr>notifications :=
          notifications st @ [\<lparr>e_code = c, e_message = m, e_line = line_no st\<rparr>]\<rparr>"

section \<open>The parser\<close>

definition BEGIN_SIGNED :: string where
  "BEGIN_SIGNED = ''-----BEGIN PGP SIGNED MESSAGE-----''"

definition BEGIN_SIGNATURE :: string where
  "BEGIN_SIGNATURE = ''-----BEGIN PGP SIGNATURE-----''"

definition END_SIGNATURE :: string where
  "END_SIGNATURE = ''-----END PGP SIGNATURE-----''"

definition parse_expires :: "caps \<Rightarrow> parser \<Rightarrow> string \<Rightarrow> exn + parser" where
  "parse_expires cp st v =
     (case dateutil_parse cp v of
        None \<Rightarrow> Inr (add_error st ''invalid_expiry'' msg_invalid_expiry None)
      | Some date_value \<Rightarrow>
          let st1 = st\<lparr>expires_date := Some date_value\<rparr>
          in if \<not> iso8601_re_match v
             then Inr (add_error st1 ''invalid_expiry'' msg_invalid_expiry None)
             else
               let now = (utcnow cp (length (line_info st1)))\<lparr>tzoffset := Some 0\<rparr>
               in (case replace_year now (year now + 1) of
                     Inl e \<Rightarrow> Inl e
                   | Inr max_value \<Rightarrow>
                       (case dt_less max_value date_value of
                          Inl e \<Rightarrow> Inl e
                        | Inr gt \<Rightarrow>
                            if gt
                            then Inr (add_recommendation st1 ''long_expiry'' msg_long_expiry)
                            else (case dt_less date_value now of
                                    Inl e \<Rightarrow> Inl e
                                  | Inr lt \<Rightarrow>
                                      if lt
                                      then Inr (add_error st1 ''expired'' msg_expired None)
                                      else Inr st1))))"

definition check_langs :: "caps \<Rightarrow> parser \<Rightarrow> string list \<Rightarrow> parser" where
  \<comment> \<open>the loop over \<open>self._langs\<close>: one error for every tag that is not valid.\<close>
  "check_langs cp st ls =
     fold (\<lambda>lang s. if \<not> tag_is_valid cp lang
                     then add_error s ''invalid_lang'' msg_invalid_lang None else s) ls st"

definition values_append :: "(string \<rightharpoonup> string list) \<Rightarrow> string \<Rightarrow> string \<Rightarrow> (string \<rightharpoonup> string list)" where
  \<comment> \<open>\<open>self._values[key].append(value)\<close> on the \<open>defaultdict(list)\<close>.\<close>
  "values_append m k v = m(k \<mapsto> (case m k of None \<Rightarrow> [] | Some vs \<Rightarrow> vs) @ [v])"

definition parse_field :: "caps \<Rightarrow> parser \<Rightarrow> string \<Rightarrow> exn + (linedict \<times> parser)" where
  "parse_field cp st ln =
     (let (key0, value0) = split_first CHR '':'' ln;
          key1 = lower key0;
          st1 = (if rstrip key1 \<noteq> key1 then add_error st ''prec_ws'' msg_prec_ws None else st);
          key = (if rstrip key1 \<noteq> key1 then rstrip key1 else key1);
          st2 = (if value0 \<noteq> [] \<and> hd value0 \<noteq> CHR '' ''
                 then add_error st1 ''no_space'' msg_no_space None else st1);
          val = (if value0 \<noteq> [] then lstrip value0 else value0)
      in if key = ''hash'' \<and> signed st2
         then Inr (\<lparr>l_type = ''pgp_envelope'', l_field_name = None, l_value = ln\<rparr>, st2)
         else if key = []
         then Inr (\<lparr>l_type = ''error'', l_field_name = None, l_value = ln\<rparr>,
                   add_error st2 ''empty_key'' msg_empty_key None)
         else if val = []
         then Inr (\<lparr>l_type = ''error'', l_field_name = None, l_value = ln\<rparr>,
                   add_error st2 ''empty_value'' msg_empty_value None)
         else
           case
             (if key \<in> set uri_fields
              then (case urlsplit_scheme cp val of
                      None \<Rightarrow> Inl ValueError
                    | Some scheme \<Rightarrow>
                        if scheme = [] then Inr (add_error st2 ''no_uri'' (msg_no_uri key) None)
                        else if scheme = ''http''
                        then Inr (add_error st2 ''no_https'' msg_no_https None)
                        else Inr st2)
              else if key = ''expires'' then parse_expires cp st2 val
              else if key = PREFERRED_LANGUAGES
              then (let ls = map strip (split_on CHR '','' val)
                    in Inr (check_langs cp (st2\<lparr>langs := Some ls\<rparr>) ls))
              else Inr st2)
           of
             Inl e \<Rightarrow> Inl e
           | Inr st3 \<Rightarrow>
               let st4 = (if recommend_unknown_fields st3 \<and> key \<notin> set known_fields
                          then add_notification st3 ''unknown_field'' (msg_unknown_field key)
                          else st3)
               in Inr (\<lparr>l_type = ''field'', l_field_name = Some key, l_value = val\<rparr>,
                       st4\<lparr>field_values := values_append (field_values st4) key val\<rparr>))"

definition parse_line :: "caps \<Rightarrow> parser \<Rightarrow> string \<Rightarrow> exn + (linedict \<times> parser)" where
  "parse_line cp st raw =
     (let ln = rstrip raw
      in if reading_sig st
         then Inr (\<lparr>l_type = ''pgp_envelope'', l_field_name = None, l_value = ln\<rparr>,
                   if ln = END_SIGNATURE
                   then st\<lparr>reading_sig := False, finished_sig := True\<rparr> else st)
         else if ln \<noteq> [] \<and> finished_sig st
         then Inr (\<lparr>l_type = ''error'', l_field_name = None, l_value = ln\<rparr>,
                   add_error st ''data_after_sig'' msg_data_after_sig None)
         else
           let ln = (if signed st \<and> \<not> reading_sig st \<and> startswith ln ''- ''
                     then drop 2 ln else ln)
           in if ln = BEGIN_SIGNED
              then
                let st1 = (if line_no st \<noteq> Some 1
                           then add_error st ''signed_format_issue'' msg_signed_format_issue None
                           else st);
                    st2 = st1\<lparr>signed := True\<rparr>;
                    st3 = (case from_blob cp (content st2) of
                             Parsed \<Rightarrow> st2
                           | RaisesValueError \<Rightarrow>
                               add_error st2 ''pgp_data_error'' msg_pgp_data_error None
                           | RaisesPGPError \<Rightarrow>
                               add_error st2 ''pgp_error'' msg_pgp_error None)
                in Inr (\<lparr>l_type = ''pgp_envelope'', l_field_name = None, l_value = ln\<rparr>, st3)
              else if ln = BEGIN_SIGNATURE \<and> signed st
              then Inr (\<lparr>l_type = ''pgp_envelope'', l_field_name = None, l_value = ln\<rparr>,
                        st\<lparr>reading_sig := True\<rparr>)
              else if startswith ln ''#''
              then Inr (\<lparr>l_type = ''comment'', l_field_name = None, l_value = ln\<rparr>, st)
              else if CHR '':'' \<in> set ln
              then parse_field cp st ln
              else if ln \<noteq> []
              then Inr (\<lparr>l_type = ''error'', l_field_name = None, l_value = ln\<rparr>,
                        add_error st ''invalid_line'' msg_invalid_line None)
              else Inr (\<lparr>l_type = ''empty'', l_field_name = None, l_value = []\<rparr>, st))"

definition lines :: "parser \<Rightarrow> linedict list" where
  \<comment> \<open>the property \<open>lines\<close>.\<close>
  "lines st = line_info st"

text \<open>
  \<open>validate_contents\<close> is a sequence of independent \<open>if\<close> statements on the finished
  state; each is one definition here, in the order of the source, and
  \<open>validate_contents\<close> runs them one after the other. None of them changes
  \<open>field_values\<close>, \<open>line_info\<close> or the envelope flags.
\<close>

definition check_expires :: "parser \<Rightarrow> parser" where
  "check_expires st =
     (if field_values st ''expires'' = None
      then add_error st ''no_expire'' msg_no_expire None
      else if length (the (field_values st ''expires'')) > 1
      then add_error st ''multi_expire'' msg_multi_expire None
      else st)"

definition check_canonical_match :: "parser \<Rightarrow> parser" where
  \<comment> \<open>\<open>if self._urls\<close> is false for \<open>None\<close> and for the empty list.\<close>
  "check_canonical_match st =
     (if urls st \<noteq> None \<and> urls st \<noteq> Some [] \<and> field_values st ''canonical'' \<noteq> None
         \<and> list_all (\<lambda>url. url \<notin> set (the (field_values st ''canonical''))) (the (urls st))
      then add_error st ''no_canonical_match'' msg_no_canonical_match None
      else st)"

definition check_last_line :: "parser \<Rightarrow> exn + parser" where
  \<comment> \<open>\<open>self.lines[-1]\<close> raises IndexError on an empty list; the error carries
      \<open>len(self.lines)\<close> as its explicit line number.\<close>
  "check_last_line st =
     (if lines st = [] then Inl IndexError
      else if l_type (last (lines st)) \<noteq> ''empty''
      then Inr (add_error st ''no_line_separators'' msg_no_line_separators
                  (Some (length (lines st))))
      else Inr st)"

definition check_csaf :: "parser \<Rightarrow> parser" where
  "check_csaf st =
     (if field_values st ''csaf'' \<noteq> None
      then
        (let st1 = (if \<not> list_all (\<lambda>v. endswith v ''provider-metadata.json'')
                              (the (field_values st ''csaf''))
                    then add_error st ''no_csaf_file'' msg_no_csaf_file None
                    else st)
         in if length (the (field_values st ''csaf'')) > 1
            then add_recommendation st1 ''multiple_csaf_fields'' msg_multiple_csaf_fields
            else st1)
      else st)"

definition check_contact :: "parser \<Rightarrow> parser" where
  "check_contact st =
     (if field_values st ''contact'' = None
      then add_error st ''no_contact'' msg_no_contact None
      else if list_ex (\<lambda>v. startswith v ''mailto:'') (the (field_values st ''contact''))
              \<and> field_values st ''encryption'' = None
      then add_recommendation st ''no_encryption'' msg_no_encryption
      else st)"

definition check_multi_lang :: "parser \<Rightarrow> parser" where
  "check_multi_lang st =
     (if field_values st PREFERRED_LANGUAGES \<noteq> None
         \<and> length (the (field_values st PREFERRED_LANGUAGES)) > 1
      then add_error st ''multi_lang'' msg_multi_lang None
      else st)"

definition check_signed :: "parser \<Rightarrow> parser" where
  \<comment> \<open>\<open>self._values.get("canonical")\<close> is false for a missing key and for an empty list.\<close>
  "check_signed st =
     (let st1 = (if \<not> signed st
                 then add_recommendation st ''not_signed'' msg_not_signed
                 else st)
      in if signed st1
            \<and> (field_values st1 ''canonical'' = None \<or> field_values st1 ''canonical'' = Some [])
         then add_recommendation st1 ''no_canonical'' msg_no_canonical
         else st1)"

definition validate_contents :: "parser \<Rightarrow> exn + parser" where
  "validate_contents st =
     (case check_last_line (check_canonical_match (check_expires st)) of
        Inl e \<Rightarrow> Inl e
      | Inr st3 \<Rightarrow> Inr (check_signed (check_multi_lang (check_contact (check_csaf st3)))))"

fun parse_lines :: "caps \<Rightarrow> parser \<Rightarrow> string list \<Rightarrow> exn + parser" where
  \<comment> \<open>the loop of \<open>_process\<close>: the record is appended, then the line number advances.\<close>
  "parse_lines cp st [] = Inr st"
| "parse_lines cp st (l # ls) =
     (case parse_line cp st l of
        Inl e \<Rightarrow> Inl e
      | Inr (ld, st1) \<Rightarrow>
          (case line_no st1 of
             None \<Rightarrow> Inl TypeError
           | Some n \<Rightarrow>
               parse_lines cp (st1\<lparr>line_info := line_info st1 @ [ld], line_no := Some (n + 1)\<rparr>) ls))"

definition process :: "caps \<Rightarrow> parser \<Rightarrow> exn + parser" where
  "process cp st =
     (let lns = split_on CHR 0x0A (content st)
      in case parse_lines cp (st\<lparr>line_no := Some 1\<rparr>) lns of
           Inl e \<Rightarrow> Inl e
         | Inr st1 \<Rightarrow> validate_contents (st1\<lparr>line_no := None\<rparr>))"

datatype urls_arg = NoUrls | OneUrl string | UrlList "string list"

fun strlist_from_arg :: "urls_arg \<Rightarrow> string list option" where
  "strlist_from_arg (OneUrl u) = Some [u]"
| "strlist_from_arg (UrlList us) = Some us"
| "strlist_from_arg NoUrls = None"

definition init :: "string \<Rightarrow> urls_arg \<Rightarrow> bool \<Rightarrow> parser" where
  \<comment> \<open>the attributes \<open>__init__\<close> sets before it calls \<open>_process\<close>; \<open>_expires_date\<close> does
      not exist yet.\<close>
  "init c us ruf =
     \<lparr>urls = strlist_from_arg us, line_info = [], errors = [], recommendations = [],
      notifications = [], field_values = Map.empty, langs = None, signed = False,
      reading_sig = False, finished_sig = False, content = c,
      recommend_unknown_fields = ruf, line_no = None, expires_date = None\<rparr>"

definition Parser :: "caps \<Rightarrow> string \<Rightarrow> urls_arg \<Rightarrow> bool \<Rightarrow> exn + parser" where
  "Parser cp c us ruf = process cp (init c us ruf)"

subsection \<open>Accessors\<close>

definition is_valid :: "parser \<Rightarrow> bool" where
  "is_valid st = (errors st = [])"

definition preferred_languages :: "parser \<Rightarrow> exn + string list option" where
  \<comment> \<open>indexing an empty list with 0 raises IndexError.\<close>
  "preferred_languages st =
     (case field_values st PREFERRED_LANGUAGES of
        None \<Rightarrow> Inr None
      | Some [] \<Rightarrow> Inl IndexError
      | Some (v # vs) \<Rightarrow> Inr (Some (map strip (split_on CHR '','' v))))"

definition contact_email :: "parser \<Rightarrow> string option" where
  "contact_email st =
     (case field_values st ''contact'' of
        None \<Rightarrow> None
      | Some vs \<Rightarrow>
          (case filter (\<lambda>v. startswith v ''mailto:'' \<or> (CHR '':'' \<notin> set v \<and> CHR ''@'' \<in> set v)) vs of
             [] \<Rightarrow> None
           | v # _ \<Rightarrow> if startswith v ''mailto:'' then Some (drop 7 v) else Some v))"

definition resolved_url :: "parser \<Rightarrow> string option" where
  "resolved_url st =
     (case urls st of None \<Rightarrow> None | Some us \<Rightarrow> if us = [] then None else Some (last us))"

section \<open>Auxiliary notions for the proofs\<close>

text \<open>
  \<open>frame\<close>: a step leaves the inputs of the run alone and only appends diagnostics;
  \<open>grows\<close>: it leaves the envelope flags alone as well. The three stages are the parts
  of \<open>parse_field\<close>, named so that each can be reasoned about on its own.
\<close>

definition frame :: "parser \<Rightarrow> parser \<Rightarrow> bool" where
  "frame st st' =
     (urls st' = urls st \<and> line_info st' = line_info st \<and> content st' = content st
      \<and> recommend_unknown_fields st' = recommend_unknown_fields st \<and> line_no st' = line_no st
      \<and> prefix (errors st) (errors st') \<and> prefix (recommendations st) (recommendations st')
      \<and> prefix (notifications st) (notifications st'))"

definition grows :: "parser \<Rightarrow> parser \<Rightarrow> bool" where
  "grows st st' =
     (frame st st' \<and> signed st' = signed st \<and> reading_sig st' = reading_sig st
      \<and> finished_sig st' = finished_sig st)"

definition sep_stage :: "parser \<Rightarrow> string \<Rightarrow> string \<times> string \<times> parser" where
  "sep_stage st ln =
     (let (key0, value0) = split_first CHR '':'' ln;
          key1 = lower key0;
          st1 = (if rstrip key1 \<noteq> key1 then add_error st ''prec_ws'' msg_prec_ws None else st);
          key = (if rstrip key1 \<noteq> key1 then rstrip key1 else key1);
          st2 = (if value0 \<noteq> [] \<and> hd value0 \<noteq> CHR '' ''
                 then add_error st1 ''no_space'' msg_no_space None else st1);
          val = (if value0 \<noteq> [] then lstrip value0 else value0)
      in (key, val, st2))"

definition value_stage :: "caps \<Rightarrow> parser \<Rightarrow> string \<Rightarrow> string \<Rightarrow> exn + parser" where
  "value_stage cp st2 key val =
     (if key \<in> set uri_fields
      then (case urlsplit_scheme cp val of
              None \<Rightarrow> Inl ValueError
            | Some scheme \<Rightarrow>
                if scheme = [] then Inr (add_error st2 ''no_uri'' (msg_no_uri key) None)
                else if scheme = ''http''
                then Inr (add_error st2 ''no_https'' msg_no_https None)
                else Inr st2)
      else if key = ''expires'' then parse_expires cp st2 val
      else if key = PREFERRED_LANGUAGES
      then (let ls = map strip (split_on CHR '','' val)
            in Inr (check_langs cp (st2\<lparr>langs := Some ls\<rparr>) ls))
      else Inr st2)"

definition record_stage :: "parser \<Rightarrow> string \<Rightarrow> string \<Rightarrow> linedict \<times> parser" where
  "record_stage st3 key val =
     (let st4 = (if recommend_unknown_fields st3 \<and> key \<notin> set known_fields
                 then add_notification st3 ''unknown_field'' (msg_unknown_field key)
                 else st3)
      in (\<lparr>l_type = ''field'', l_field_name = Some key, l_value = val\<rparr>,
          st4\<lparr>field_values := values_append (field_values st4) key val\<rparr>))"

definition env_ok :: "parser \<Rightarrow> bool" where
  "env_ok st = ((\<not> reading_sig st \<or> signed st)
                \<and> (\<not> finished_sig st \<or> (signed st \<and> \<not> reading_sig st)))"

section \<open>Properties\<close>

subsection \<open>Validity is the absence of errors\<close>

text \<open>
  C9: \<open>is_valid\<close> holds exactly when the list of errors is empty; the lists of
  recommendations and notifications have no influence on it, whatever they hold.
\<close>

theorem is_valid_iff_no_errors:
  "(is_valid st \<longleftrightarrow> errors st = [])
   \<and> is_valid (st\<lparr>recommendations := rs\<rparr>) = is_valid st
   \<and> is_valid (st\<lparr>notifications := ns\<rparr>) = is_valid st
   \<and> is_valid (add_recommendation st c m) = is_valid st
   \<and> is_valid (add_notification st c m) = is_valid st
   \<and> \<not> is_valid (add_error st c m ln)"
  by (simp add: is_valid_def add_recommendation_def add_notification_def add_error_def)

subsection \<open>What a step may change\<close>

lemma grows_refl [simp]: "grows st st"
  by (simp add: grows_def frame_def)

lemma grows_add_error [simp]: "grows st s \<Longrightarrow> grows st (add_error s c m e)"
  by (simp add: grows_def frame_def add_error_def)

lemma grows_add_recommendation [simp]: "grows st s \<Longrightarrow> grows st (add_recommendation s c m)"
  by (simp add: grows_def frame_def add_recommendation_def)

lemma grows_add_notification [simp]: "grows st s \<Longrightarrow> grows st (add_notification s c m)"
  by (simp add: grows_def frame_def add_notification_def)

lemma grows_updates [simp]:
  "grows st s \<Longrightarrow> grows st (s\<lparr>field_values := fv\<rparr>)"
  "grows st s \<Longrightarrow> grows st (s\<lparr>langs := lg\<rparr>)"
  "grows st s \<Longrightarrow> grows st (s\<lparr>expires_date := d\<rparr>)"
  by (simp_all add: grows_def frame_def)

lemma grows_check_langs [simp]: "grows st s \<Longrightarrow> grows st (check_langs cp s ls)"
  unfolding check_langs_def
  by (induction ls arbitrary: s) simp_all

lemma grows_parse_expires:
  "parse_expires cp s v = Inr s' \<Longrightarrow> grows st s \<Longrightarrow> grows st s'"
  by (auto simp: parse_expires_def Let_def split: option.splits if_splits sum.splits)

lemma parse_field_stages:
  "parse_field cp st ln =
     (case sep_stage st ln of
        (key, val, st2) \<Rightarrow>
          if key = ''hash'' \<and> signed st2
          then Inr (\<lparr>l_type = ''pgp_envelope'', l_field_name = None, l_value = ln\<rparr>, st2)
          else if key = []
          then Inr (\<lparr>l_type = ''error'', l_field_name = None, l_value = ln\<rparr>,
                    add_error st2 ''empty_key'' msg_empty_key None)
          else if val = []
          then Inr (\<lparr>l_type = ''error'', l_field_name = None, l_value = ln\<rparr>,
                    add_error st2 ''empty_value'' msg_empty_value None)
          else (case value_stage cp st2 key val of
                  Inl e \<Rightarrow> Inl e
                | Inr st3 \<Rightarrow> Inr (record_stage st3 key val)))"
  unfolding parse_field_def sep_stage_def value_stage_def record_stage_def Let_def
  by (simp only: split_def prod.case fst_conv snd_conv)

lemma grows_sep_stage: "sep_stage st ln = (key, val, st2) \<Longrightarrow> grows st st2"
  by (auto simp: sep_stage_def Let_def split: prod.splits)

lemma grows_value_stage: "value_stage cp st2 key val = Inr st3 \<Longrightarrow> grows st st2 \<Longrightarrow> grows st st3"
  by (auto simp: value_stage_def Let_def grows_parse_expires split: if_splits option.splits)

lemma grows_record_stage: "record_stage st3 key val = (ld, st') \<Longrightarrow> grows st st3 \<Longrightarrow> grows st st'"
  by (auto simp: record_stage_def Let_def)

lemma grows_parse_field:
  assumes "parse_field cp st ln = Inr (ld, st')"
  shows "grows st st'"
proof -
  obtain key val st2 where s: "sep_stage st ln = (key, val, st2)"
    by (metis prod_cases3)
  note g2 = grows_sep_stage[OF s]
  from assms g2 show ?thesis
    unfolding parse_field_stages s
    by (auto split: if_splits sum.splits
             intro: grows_value_stage grows_record_stage)
qed

lemma frame_refl [simp]: "frame st st"
  by (simp add: frame_def)

lemma grows_frame: "grows st st' \<Longrightarrow> frame st st'"
  by (simp add: grows_def)

lemma frame_add_error [simp]: "frame st s \<Longrightarrow> frame st (add_error s c m e)"
  by (simp add: frame_def add_error_def)

lemma frame_updates [simp]:
  "frame st s \<Longrightarrow> frame st (s\<lparr>signed := a\<rparr>)"
  "frame st s \<Longrightarrow> frame st (s\<lparr>reading_sig := b\<rparr>)"
  "frame st s \<Longrightarrow> frame st (s\<lparr>finished_sig := b'\<rparr>)"
  by (simp_all add: frame_def)

lemma frame_parse_line:
  "parse_line cp st raw = Inr (ld, st') \<Longrightarrow> frame st st'"
  by (auto simp: parse_line_def Let_def split: if_splits pgp_outcome.splits
           dest: grows_parse_field grows_frame)

lemma parse_line_flags:
  assumes "parse_line cp st raw = Inr (ld, st')"
  shows "signed st \<Longrightarrow> signed st'"
    and "finished_sig st \<Longrightarrow> finished_sig st'"
    and "reading_sig st \<Longrightarrow> \<not> reading_sig st' \<Longrightarrow> finished_sig st'"
    and "\<not> reading_sig st \<Longrightarrow> reading_sig st' \<Longrightarrow> signed st \<and> \<not> finished_sig st"
    and "\<not> finished_sig st \<Longrightarrow> finished_sig st' \<Longrightarrow> reading_sig st \<and> \<not> reading_sig st'"
    and "finished_sig st \<Longrightarrow> \<not> reading_sig st \<Longrightarrow> \<not> reading_sig st'"
  using assms
  by (auto simp: parse_line_def Let_def add_error_def BEGIN_SIGNATURE_def startswith_def grows_def
           split: if_splits pgp_outcome.splits
           dest!: grows_parse_field)

lemma parse_lines_append:
  "parse_lines cp st (xs @ ys) =
     (case parse_lines cp st xs of Inl e \<Rightarrow> Inl e | Inr s \<Rightarrow> parse_lines cp s ys)"
  by (induction xs arbitrary: st) (simp_all split: sum.splits prod.splits option.splits)

lemma parse_lines_step:
  assumes "parse_lines cp st (l # ls) = Inr st'"
  obtains ld s1 n where "parse_line cp st l = Inr (ld, s1)" "line_no s1 = Some n"
    "parse_lines cp (s1\<lparr>line_info := line_info s1 @ [ld], line_no := Some (n + 1)\<rparr>) ls = Inr st'"
  using assms by (auto split: sum.splits prod.splits option.splits)

lemma parse_lines_info:
  "parse_lines cp st ls = Inr st' \<Longrightarrow>
     length (line_info st') = length (line_info st) + length ls
     \<and> prefix (line_info st) (line_info st')
     \<and> prefix (errors st) (errors st')
     \<and> prefix (recommendations st) (recommendations st')
     \<and> prefix (notifications st) (notifications st')
     \<and> urls st' = urls st \<and> content st' = content st
     \<and> recommend_unknown_fields st' = recommend_unknown_fields st
     \<and> line_no st' = map_option (\<lambda>k. k + length ls) (line_no st)"
proof (induction ls arbitrary: st)
  case Nil
  then show ?case by (simp add: option.map_ident)
next
  case (Cons l ls)
  from parse_lines_step[OF Cons.prems] obtain ld s1 n where
    a: "parse_line cp st l = Inr (ld, s1)" and b: "line_no s1 = Some n" and
    c: "parse_lines cp (s1\<lparr>line_info := line_info s1 @ [ld], line_no := Some (n + 1)\<rparr>) ls = Inr st'"
    by blast
  from frame_parse_line[OF a] have f: "frame st s1" .
  from f b have n: "line_no st = Some n" by (simp add: frame_def)
  from Cons.IH[OF c] f show ?case
    by (auto simp: frame_def n dest: append_prefixD intro: prefix_order.trans)
qed

subsection \<open>Splitting into lines, the cross-field pass and the loop\<close>

lemma split_on_nonempty [simp]: "split_on sep s \<noteq> []"
  by (induction s) (simp_all add: Let_def)

lemma split_on_length: "length (split_on sep s) = Suc (count_list s sep)"
  by (induction s) (simp_all add: Let_def)

lemma split_on_snoc_sep: "split_on sep (s @ [sep]) = split_on sep s @ [[]]"
proof (induction s)
  case Nil
  show ?case by simp
next
  case (Cons c cs)
  have ne: "split_on sep cs \<noteq> []" by simp
  then obtain w ws where w: "split_on sep cs = w # ws" by (cases "split_on sep cs") auto
  with Cons show ?case by (simp add: Let_def)
qed

lemma check_fields [simp]:
  "field_values (add_error st c m e) = field_values st"
  "field_values (add_recommendation st c m) = field_values st"
  "field_values (add_notification st c m) = field_values st"
  "field_values (check_expires st) = field_values st"
  "field_values (check_canonical_match st) = field_values st"
  "field_values (check_csaf st) = field_values st"
  "field_values (check_contact st) = field_values st"
  "field_values (check_multi_lang st) = field_values st"
  "field_values (check_signed st) = field_values st"
  by (simp_all add: add_error_def add_recommendation_def add_notification_def check_expires_def
        check_canonical_match_def check_csaf_def check_contact_def check_multi_lang_def
        check_signed_def Let_def)

lemma grows_checks [simp]:
  "grows st s \<Longrightarrow> grows st (check_expires s)"
  "grows st s \<Longrightarrow> grows st (check_canonical_match s)"
  "grows st s \<Longrightarrow> grows st (check_csaf s)"
  "grows st s \<Longrightarrow> grows st (check_contact s)"
  "grows st s \<Longrightarrow> grows st (check_multi_lang s)"
  "grows st s \<Longrightarrow> grows st (check_signed s)"
  by (simp_all add: check_expires_def check_canonical_match_def check_csaf_def check_contact_def
        check_multi_lang_def check_signed_def Let_def)

lemma check_last_line_grows:
  "check_last_line s = Inr s' \<Longrightarrow> grows st s \<Longrightarrow> grows st s' \<and> field_values s' = field_values s"
  by (auto simp: check_last_line_def split: if_splits)

lemma validate_contents_grows:
  assumes "validate_contents st = Inr st'"
  shows "grows st st'" and "field_values st' = field_values st"
proof -
  from assms obtain st3 where
    a: "check_last_line (check_canonical_match (check_expires st)) = Inr st3" and
    b: "st' = check_signed (check_multi_lang (check_contact (check_csaf st3)))"
    by (auto simp: validate_contents_def split: sum.splits)
  from check_last_line_grows[OF a, of st] have "grows st st3" "field_values st3 = field_values st"
    by simp_all
  then show "grows st st'" and "field_values st' = field_values st"
    by (simp_all add: b)
qed

lemma process_cases:
  assumes "process cp st = Inr st'"
  obtains s1 where
    "parse_lines cp (st\<lparr>line_no := Some 1\<rparr>) (split_on CHR 0x0A (content st)) = Inr s1"
    "validate_contents (s1\<lparr>line_no := None\<rparr>) = Inr st'"
  using assms by (auto simp: process_def Let_def split: sum.splits)

lemma parse_lines_nth:
  assumes "parse_lines cp st ls = Inr st'" and "i < length ls"
  shows "\<exists>s s1. parse_lines cp st (take i ls) = Inr s
               \<and> parse_line cp s (ls ! i) = Inr (line_info st' ! (length (line_info st) + i), s1)"
proof -
  have ls: "ls = take i ls @ (ls ! i) # drop (Suc i) ls"
    using assms(2) by (simp add: id_take_nth_drop)
  from assms(1) obtain s where
    s: "parse_lines cp st (take i ls) = Inr s" and
    r: "parse_lines cp s ((ls ! i) # drop (Suc i) ls) = Inr st'"
    by (subst (asm) ls) (auto simp: parse_lines_append split: sum.splits)
  from parse_lines_step[OF r] obtain ld s1 n where
    a: "parse_line cp s (ls ! i) = Inr (ld, s1)" and b: "line_no s1 = Some n" and
    c: "parse_lines cp (s1\<lparr>line_info := line_info s1 @ [ld], line_no := Some (n + 1)\<rparr>)
          (drop (Suc i) ls) = Inr st'"
    by blast
  from parse_lines_info[OF s] assms(2)
  have len: "length (line_info s) = length (line_info st) + i" by simp
  from frame_parse_line[OF a] have li: "line_info s1 = line_info s" by (simp add: frame_def)
  from parse_lines_info[OF c] have "prefix (line_info s @ [ld]) (line_info st')"
    by (simp add: li)
  then obtain zs where "line_info st' = (line_info s @ [ld]) @ zs" by (auto simp: prefix_def)
  then have "line_info st' ! (length (line_info st) + i) = ld"
    using len by (simp add: nth_append)
  with s a show ?thesis by blast
qed

end
